theory Spec2Isabelle
  imports Complex_Main
begin

section \<open>AquiMod auto-calibration: a model of \<^verbatim>\<open>autocal/aquimod.py\<close>\<close>

text \<open>
  The class \<^verbatim>\<open>AquiModAWS\<close> drives an external simulator through text files and
  implements the Shuffled Complex Evolution calibration on top of it. The model below
  follows the methods of the class one by one.

  Reading conventions, used throughout:
  \<^item> the source is taken as it is written: where it calls a method that a pandas frame
    does not have, looks up a key that a dictionary does not have, or falls off the end
    of a method, the model raises or yields \<^verbatim>\<open>None\<close> as Python does;
  \<^item> a pandas data frame is its column labels and its rows, in row order;
  \<^item> Python floats are the real numbers, and the counts (numbers of complexes, points,
    iterations and runs) are natural numbers;
  \<^item> an exception is a value \<open>Inl e\<close> of a result type \<open>error + 'a\<close>;
  \<^item> the simulator and the reading of its output files are a parameter of the model
    (the record \<open>env\<close> below), free to fail, so that what is proved holds for whatever
    they do.
\<close>

datatype error =
  FileNotFoundError | IndexError | KeyError | ValueError | AttributeError | TypeError

section \<open>The model\<close>

subsection \<open>Partition of the population into complexes (\<^verbatim>\<open>calibrate\<close>, step 3)\<close>

text \<open>
  \<^verbatim>\<open>bool_mask = [(j % num_complexes) == i for j in range(len(df))]\<close>
\<close>

definition bool_mask :: "nat \<Rightarrow> nat \<Rightarrow> nat \<Rightarrow> bool list" where
  "bool_mask num_complexes i n = map (\<lambda>j. j mod num_complexes = i) [0..<n]"

text \<open>\<^verbatim>\<open>df.iloc[bool_mask]\<close>: the rows whose mask entry is true, in row order.\<close>

definition iloc_mask :: "'a list \<Rightarrow> bool list \<Rightarrow> 'a list" where
  "iloc_mask df bmask = map fst (filter snd (zip df bmask))"

text \<open>
  The loop \<^verbatim>\<open>for i in range(num_complexes)\<close> builds the \<open>i\<close>-th complex from the
  mask of \<open>i\<close>. The source has no size check and no raise on this path.
\<close>

definition partition_complexes :: "'a list \<Rightarrow> nat \<Rightarrow> 'a list list" where
  "partition_complexes population num_complexes =
     map (\<lambda>i. iloc_mask population (bool_mask num_complexes i (length population)))
       [0..<num_complexes]"

text \<open>
  A frame read from a file carries the row labels \<open>0, 1, 2, ...\<close>, and \<^verbatim>\<open>iloc\<close>
  keeps the label of every row it selects. \<open>labelled\<close> attaches them; the index set of a
  complex is the set of its labels.
\<close>

definition labelled :: "'a list \<Rightarrow> (nat \<times> 'a) list" where
  "labelled df = zip [0..<length df] df"

definition index_set :: "(nat \<times> 'a) list \<Rightarrow> nat set" where
  "index_set complx = fst ` set complx"

subsection \<open>Text files: \<^verbatim>\<open>_edit_line\<close>, \<^verbatim>\<open>_read_line\<close> and the properties built on them\<close>

text \<open>
  A path is the list of its components (\<^verbatim>\<open>Path(model_dir, "Input.txt")\<close> appends a
  component); the file system maps a path to the text of the file there. Two paths are
  the same file exactly when they are equal. The text is what Python reads in text
  mode, with the newline character as the only line ending. Opening a file for writing
  creates it and does not fail in this model.
\<close>

type_synonym path = "string list"
type_synonym filesystem = "path \<rightharpoonup> string"

record aquimod =
  model_dir :: path
  input_path :: path
  observations_path :: path

text \<open>\<^verbatim>\<open>__init__\<close>, without the table \<^verbatim>\<open>model_data.csv\<close> that the methods below do not read.\<close>

definition init :: "path \<Rightarrow> aquimod" where
  "init dir = \<lparr>model_dir = dir, input_path = dir @ [''Input.txt''],
     observations_path = dir @ [''Observations.txt'']\<rparr>"

text \<open>
  \<^verbatim>\<open>f.readlines()\<close>: the text cut after every newline; each line keeps its newline,
  and a last line without one is kept as it is.
\<close>

fun readlines :: "string \<Rightarrow> string list" where
  "readlines [] = []"
| "readlines (c # cs) =
     (if c = CHR 0x0A then [c] # readlines cs
      else (case readlines cs of [] \<Rightarrow> [[c]] | l # ls \<Rightarrow> (c # l) # ls))"

text \<open>
  A Python list index: \<open>0 \<le> i < n\<close> counts from the front, \<open>- n \<le> i < 0\<close> from
  the back, anything else raises IndexError (\<open>None\<close> here).
\<close>

definition py_index :: "int \<Rightarrow> nat \<Rightarrow> nat option" where
  "py_index i n =
     (if 0 \<le> i \<and> i < int n then Some (nat i)
      else if i < 0 \<and> - int n \<le> i then Some (nat (int n + i))
      else None)"

text \<open>
  \<^verbatim>\<open>_edit_line(self, path, line_number, text)\<close>: the lines are read from \<open>path\<close>, the
  line is replaced by \<open>text\<close> and a newline, and the lines are written to
  \<^verbatim>\<open>self.input_path\<close>. The result is the outcome of the call and the file system
  after it. An exception leaves the file system as it was: both raises come before the
  file is opened for writing.
\<close>

definition edit_line ::
    "aquimod \<Rightarrow> filesystem \<Rightarrow> path \<Rightarrow> int \<Rightarrow> string \<Rightarrow> (error + unit) \<times> filesystem" where
  "edit_line self fs path line_number text =
     (case fs path of
        None \<Rightarrow> (Inl FileNotFoundError, fs)
      | Some content \<Rightarrow>
          (let lines = readlines content in
           case py_index line_number (length lines) of
             None \<Rightarrow> (Inl IndexError, fs)
           | Some i \<Rightarrow>
               (Inr (), fs(input_path self \<mapsto> concat (lines[i := text @ [CHR 0x0A]])))))"

text \<open>\<^verbatim>\<open>_read_line\<close>: \<^verbatim>\<open>lines[line_number].replace("\n", "")\<close>.\<close>

definition read_line :: "filesystem \<Rightarrow> path \<Rightarrow> int \<Rightarrow> error + string" where
  "read_line fs path line_number =
     (case fs path of
        None \<Rightarrow> Inl FileNotFoundError
      | Some content \<Rightarrow>
          (case py_index line_number (length (readlines content)) of
             None \<Rightarrow> Inl IndexError
           | Some i \<Rightarrow> Inr (filter (\<lambda>c. c \<noteq> CHR 0x0A) (readlines content ! i))))"

text \<open>
  The getter of \<^verbatim>\<open>calibrated_variable\<close>: its body is the call
  \<^verbatim>\<open>self._read_line(self.input_path, 7)\<close> with no \<^verbatim>\<open>return\<close>, so a call that does not
  raise yields Python's \<^verbatim>\<open>None\<close>. The result is \<open>string option\<close>, \<open>None\<close> for
  \<^verbatim>\<open>None\<close>.
\<close>

definition calibrated_variable :: "aquimod \<Rightarrow> filesystem \<Rightarrow> error + string option" where
  "calibrated_variable self fs =
     (case read_line fs (input_path self) 7 of Inl e \<Rightarrow> Inl e | Inr line \<Rightarrow> Inr None)"

text \<open>\<^verbatim>\<open>str.split(" ")\<close>: the fields between single spaces, empty fields included.\<close>

fun split_on :: "char \<Rightarrow> string \<Rightarrow> string list" where
  "split_on sep [] = [[]]"
| "split_on sep (c # cs) =
     (if c = sep then [] # split_on sep cs
      else (case split_on sep cs of [] \<Rightarrow> [[c]] | part # parts \<Rightarrow> (c # part) # parts))"

text \<open>
  The getter of \<^verbatim>\<open>module_config\<close>: line 1 of the input file, split at spaces, gives
  the dictionary with the keys \<^verbatim>\<open>"soil"\<close>, \<^verbatim>\<open>"unstaurated"\<close> (spelt so in the
  source) and \<^verbatim>\<open>"saturated"\<close>. Python's \<^verbatim>\<open>int\<close> is the parameter \<open>to_int\<close>, \<open>None\<close>
  where it raises ValueError.
\<close>

definition module_config ::
    "(string \<Rightarrow> int option) \<Rightarrow> aquimod \<Rightarrow> filesystem \<Rightarrow> error + (string \<rightharpoonup> int)" where
  "module_config to_int self fs =
     (case read_line fs (input_path self) 1 of
        Inl err \<Rightarrow> Inl err
      | Inr line_text \<Rightarrow>
          (case split_on CHR '' '' line_text of
             [] \<Rightarrow> Inl IndexError
           | f0 # rest0 \<Rightarrow>
          (case to_int f0 of
             None \<Rightarrow> Inl ValueError
           | Some soil \<Rightarrow>
          (case rest0 of
             [] \<Rightarrow> Inl IndexError
           | f1 # rest1 \<Rightarrow>
          (case to_int f1 of
             None \<Rightarrow> Inl ValueError
           | Some unsaturated \<Rightarrow>
          (case rest1 of
             [] \<Rightarrow> Inl IndexError
           | f2 # rest2 \<Rightarrow>
          (case to_int f2 of
             None \<Rightarrow> Inl ValueError
           | Some saturated \<Rightarrow>
               Inr [''soil'' \<mapsto> soil, ''unstaurated'' \<mapsto> unsaturated,
                    ''saturated'' \<mapsto> saturated])))))))"

text \<open>
  The keys of the dictionary that \<^verbatim>\<open>module_names\<close> builds (those of its
  \<^verbatim>\<open>df_dict\<close>).
\<close>

definition components :: "string list" where
  "components = [''soil'', ''unsaturated'', ''saturated'']"

text \<open>
  The getter of \<^verbatim>\<open>module_names\<close>: for every component in turn,
  \<^verbatim>\<open>modules[component]\<close> is looked up (KeyError when the key is missing) and the
  module name of that number is selected from the table \<^verbatim>\<open>model_data.csv\<close>; the
  selection is the parameter \<open>select\<close>.
\<close>

fun module_names_of ::
    "(string \<Rightarrow> int \<Rightarrow> error + string) \<Rightarrow> (string \<rightharpoonup> int) \<Rightarrow> string list \<Rightarrow>
     error + (string \<times> string) list" where
  "module_names_of select modules [] = Inr []"
| "module_names_of select modules (component # rest) =
     (case modules component of
        None \<Rightarrow> Inl KeyError
      | Some number \<Rightarrow>
          (case select component number of
             Inl err \<Rightarrow> Inl err
           | Inr name \<Rightarrow>
               (case module_names_of select modules rest of
                  Inl err \<Rightarrow> Inl err
                | Inr names \<Rightarrow> Inr ((component, name) # names))))"

definition module_names ::
    "(string \<Rightarrow> int option) \<Rightarrow> (string \<Rightarrow> int \<Rightarrow> error + string) \<Rightarrow> aquimod \<Rightarrow> filesystem \<Rightarrow>
     error + (string \<times> string) list" where
  "module_names to_int select self fs =
     (case module_config to_int self fs of
        Inl err \<Rightarrow> Inl err
      | Inr modules \<Rightarrow> module_names_of select modules components)"

text \<open>
  \<^verbatim>\<open>output_calibration_paths\<close>. The value of \<^verbatim>\<open>self.module_names\<close>, which the
  property evaluates first, is the argument \<open>names\<close>: an exception, or the module name
  of every component (the keys of that dictionary are the components). It is an
  argument so that what the property does with it can be stated for any value: with
  the getter above it is always the exception, see \<open>module_names_raises\<close> below. The
  getter \<^verbatim>\<open>calibrated_variable\<close> is called once for each comparison that is reached.
\<close>

definition output_calibration_paths ::
    "aquimod \<Rightarrow> error + (string \<Rightarrow> string) \<Rightarrow> filesystem \<Rightarrow> error + (string \<rightharpoonup> path)" where
  "output_calibration_paths self names fs =
     (case names of
        Inl e \<Rightarrow> Inl e
      | Inr module_name \<Rightarrow>
          (let paths = map_of (map (\<lambda>component.
                 (component, model_dir self @ [''Output'', module_name component @ ''_calib.out'']))
                 components) in
           case calibrated_variable self fs of
             Inl e \<Rightarrow> Inl e
           | Inr v \<Rightarrow>
               if v = Some ''g''
               then Inr (paths(''fit'' \<mapsto> model_dir self @ [''Output'', ''fit_calib_GWL.out'']))
               else (case calibrated_variable self fs of
                       Inl e \<Rightarrow> Inl e
                     | Inr v' \<Rightarrow>
                         if v' = Some ''s''
                         then Inr (paths(''fit'' \<mapsto>
                                model_dir self @ [''Output'', ''fit_calib_SM.out'']))
                         else Inr paths)))"

subsection \<open>Frames and the simulator\<close>

text \<open>
  A frame: the labels of its columns and its rows. A row of numbers is the list of its
  values, one for each column. The dictionaries of frames that the class passes around
  (one frame for each component) are association lists, in insertion order.
\<close>

record 'r frame =
  columns :: "string list"
  rows :: "'r list"

type_synonym vec = "real list"

text \<open>
  The simulator is an external process (\<^verbatim>\<open>os.system\<close>) that reads the input and
  evaluation files and writes output tables. A run in calibration mode \<^verbatim>\<open>"c"\<close> draws
  its own random points inside the calibration limits and evaluates them; a run in
  evaluation mode \<^verbatim>\<open>"e"\<close> evaluates the parameters staged in the evaluation files.
  The model records every run, with what the simulator was given. The world holds the
  parameters that are staged in the evaluation files, the log of the runs and the count
  of the calls of \<^verbatim>\<open>np.random.choice\<close> made so far.
\<close>

datatype sim_mode = Calibration | Evaluation

datatype event = Calibration_run nat | Evaluation_run nat vec

record world =
  evaluation_parameters :: vec
  sim_log :: "event list"
  picks :: nat

text \<open>
  What the program cannot decide is a parameter of the model: \<open>outputs\<close> is what
  \<^verbatim>\<open>read_performance_output\<close> yields after a history of runs, an exception or the
  dictionary of the tables read from the output files (so a random or a failing
  simulator, and a failing read, are covered: the tables may be anything, also empty).
\<close>

record env =
  outputs :: "event list \<Rightarrow> error + (string \<times> vec frame) list"

text \<open>
  \<^verbatim>\<open>run(sim_mode=..., num_runs=...)\<close>: the mode and the number of runs are written
  to the input file and the simulator is started. The run is recorded; what it makes of
  the files shows in what is read back afterwards.
\<close>

definition run :: "sim_mode \<Rightarrow> nat \<Rightarrow> world \<Rightarrow> world" where
  "run mode num_runs w =
     (case mode of
        Calibration \<Rightarrow> w\<lparr>sim_log := sim_log w @ [Calibration_run num_runs]\<rparr>
      | Evaluation \<Rightarrow>
          w\<lparr>sim_log := sim_log w @ [Evaluation_run num_runs (evaluation_parameters w)]\<rparr>)"

definition read_performance_output :: "env \<Rightarrow> world \<Rightarrow> error + (string \<times> vec frame) list" where
  "read_performance_output e w = outputs e (sim_log w)"

subsection \<open>Competitive complex evolution (\<^verbatim>\<open>_cce\<close>)\<close>

text \<open>
  \<^verbatim>\<open>pd.concat(complx.values(), axis=1)\<close> raises ValueError when there is no frame to
  concatenate; otherwise the columns of the result are the columns of the frames, in
  order. Of the concatenated frame only the column labels are looked at before the
  method raises.
\<close>

definition concat_columns :: "'r frame list \<Rightarrow> error + string list" where
  "concat_columns frames =
     (if frames = [] then Inl ValueError else Inr (concat (map columns frames)))"

text \<open>
  \<^verbatim>\<open>df.name\<close> for a name that is neither a method nor an attribute of a pandas frame:
  the column of that label when there is one, AttributeError otherwise. A frame has no
  method \<^verbatim>\<open>sort_by\<close> (the method that sorts by a column is \<^verbatim>\<open>sort_values\<close>).
\<close>

definition frame_getattr :: "string list \<Rightarrow> string \<Rightarrow> error + string" where
  "frame_getattr cols name = (if name \<in> set cols then Inr name else Inl AttributeError)"

text \<open>
  \<^verbatim>\<open>_cce(self, complx, simplx_size, alpha, reflection_coef, contraction_coef)\<close>, lines
  313 to 318: the frames of the complex are concatenated, the length is taken, and
  \<^verbatim>\<open>complx_df.sort_by("ObjectiveFunction", ascending=False)\<close> is evaluated. The
  attribute lookup raises AttributeError; if the complex has a column labelled
  \<^verbatim>\<open>sort_by\<close>, the lookup yields that column and calling it raises TypeError. So
  every path raises at line 313 or 318, and the rest of the method (the weights of line
  319, the draw of the simplex, the loop of reflection, boundary check, contraction and
  mutation, lines 319 to 390) is not reached. The result is the outcome of the call and
  the world after it.
\<close>

definition cce ::
    "(string \<times> 'r frame) list \<Rightarrow> nat \<Rightarrow> nat \<Rightarrow> real \<Rightarrow> real \<Rightarrow> world \<Rightarrow> (error + unit) \<times> world" where
  "cce complx simplx_size alpha reflection_coef contraction_coef w =
     (case concat_columns (map snd complx) of
        Inl err \<Rightarrow> (Inl err, w)
      | Inr cols \<Rightarrow>
          (case frame_getattr cols ''sort_by'' of
             Inl err \<Rightarrow> (Inl err, w)
           | Inr series \<Rightarrow> (Inl TypeError, w)))"





subsection \<open>The driver \<^verbatim>\<open>calibrate\<close>\<close>

text \<open>
  The \<open>i\<close>-th complex: for every component frame of the population, the rows that the
  mask of \<open>i\<close> selects, with their labels (\<^verbatim>\<open>complx[component] = df.iloc[bool_mask]\<close>).
\<close>

definition complex_of ::
    "(string \<times> 'a frame) list \<Rightarrow> nat \<Rightarrow> nat \<Rightarrow> (string \<times> (nat \<times> 'a) frame) list" where
  "complex_of population num_complexes i =
     map (\<lambda>(component, df).
            (component,
             \<lparr>columns = columns df,
              rows = iloc_mask (labelled (rows df))
                       (bool_mask num_complexes i (length (rows df)))\<rparr>))
       population"

text \<open>
  The loop \<^verbatim>\<open>for i in range(num_complexes)\<close>: every complex is built and passed to
  \<^verbatim>\<open>_cce\<close> with the default coefficients \<^verbatim>\<open>reflection_coef=1\<close> and
  \<^verbatim>\<open>contraction_coef=0.5\<close>; an exception of \<^verbatim>\<open>_cce\<close> ends the loop.
\<close>

fun evolve_complexes ::
    "(string \<times> vec frame) list \<Rightarrow> nat \<Rightarrow> nat \<Rightarrow> nat \<Rightarrow> nat list \<Rightarrow> world \<Rightarrow> error + world" where
  "evolve_complexes population num_complexes simplex_size alpha [] w = Inr w"
| "evolve_complexes population num_complexes simplex_size alpha (i # rest) w =
     (case cce (complex_of population num_complexes i) simplex_size alpha 1 (1 / 2) w of
        (Inl err, w') \<Rightarrow> Inl err
      | (Inr finished, w') \<Rightarrow>
          evolve_complexes population num_complexes simplex_size alpha rest w')"

text \<open>
  \<^verbatim>\<open>calibrate(self, num_complexes, complex_size, simplex_size, alpha)\<close>: one calibration
  run of \<open>sample_size\<close> points, the tables read back, and the loop over the complexes.
  The body ends there, with no \<^verbatim>\<open>return\<close>: the value of a call that does not raise
  is \<^verbatim>\<open>None\<close>.
\<close>

definition calibrate ::
    "env \<Rightarrow> nat \<Rightarrow> nat \<Rightarrow> nat \<Rightarrow> nat \<Rightarrow> world \<Rightarrow>
     error + (string \<times> vec frame) list option \<times> world" where
  "calibrate e num_complexes complex_size simplex_size alpha w =
     (let sample_size = num_complexes * complex_size;
          w1 = run Calibration sample_size w in
      case read_performance_output e w1 of
        Inl err \<Rightarrow> Inl err
      | Inr population \<Rightarrow>
          (case evolve_complexes population num_complexes simplex_size alpha
                  [0..<num_complexes] w1 of
             Inl err \<Rightarrow> Inl err
           | Inr w2 \<Rightarrow> Inr (None, w2)))"

subsection \<open>A small instance\<close>

text \<open>
  A simulator with one component and one parameter \<open>x\<close>: a calibration run of \<open>n\<close>
  points yields the table of the points \<open>n - 1, ..., 0\<close>, each with its own value as
  objective, \<open>missing\<close> rows short; every other read yields one row.
\<close>

definition example_table :: "nat \<Rightarrow> vec frame" where
  "example_table n =
     \<lparr>columns = [''x'', ''ObjectiveFunction''],
      rows = map (\<lambda>i. [real i, real i]) (rev [0..<n])\<rparr>"

definition example_outputs :: "nat \<Rightarrow> event list \<Rightarrow> (string \<times> vec frame) list" where
  "example_outputs missing history =
     (case rev history of
        [] \<Rightarrow> [(''soil'', example_table 1)]
      | Calibration_run n # earlier \<Rightarrow> [(''soil'', example_table (n - missing))]
      | Evaluation_run n v # earlier \<Rightarrow> [(''soil'', example_table 1)])"

definition example_env :: "nat \<Rightarrow> env" where
  "example_env missing = \<lparr>outputs = (\<lambda>history. Inr (example_outputs missing history))\<rparr>"

definition example_world :: world where
  "example_world = \<lparr>evaluation_parameters = [], sim_log = [], picks = 0\<rparr>"

text \<open>A complex of two points, as \<^verbatim>\<open>calibrate\<close> would hand it to \<^verbatim>\<open>_cce\<close>.\<close>

definition example_complex :: "(string \<times> (nat \<times> vec) frame) list" where
  "example_complex =
     [(''soil'', \<lparr>columns = [''x'', ''ObjectiveFunction''],
                  rows = [(0, [4, 4]), (2, [0, 1])]\<rparr>)]"

text \<open>Two small file systems, with the model directory \<open>m\<close>.\<close>

definition example_fs :: filesystem where
  "example_fs =
     [[''m'', ''Input.txt''] \<mapsto> ''a\<newline>b\<newline>'', [''m'', ''Other.txt''] \<mapsto> ''x\<newline>y\<newline>z'']"

definition example_input_g :: filesystem where
  "example_input_g =
     [[''m'', ''Input.txt''] \<mapsto> ''0\<newline>1\<newline>2\<newline>3\<newline>4\<newline>5\<newline>6\<newline>g\<newline>8\<newline>'']"

section \<open>Properties\<close>

subsection \<open>Properties of the partition\<close>

lemma iloc_mask_positions:
  "iloc_mask df (bool_mask p i (length df)) =
     map ((!) df) (filter (\<lambda>j. j mod p = i) [0..<length df])"
proof -
  have "zip df (map (\<lambda>j. j mod p = i) [0..<length df]) =
        map (\<lambda>j. (df ! j, j mod p = i)) [0..<length df]"
    by (rule nth_equalityI) simp_all
  then show ?thesis
    by (simp add: iloc_mask_def bool_mask_def filter_map comp_def)
qed

lemma partition_complexes_nth:
  "i < p \<Longrightarrow> partition_complexes df p ! i =
     map ((!) df) (filter (\<lambda>j. j mod p = i) [0..<length df])"
  by (simp add: partition_complexes_def iloc_mask_positions)

lemma filter_eq_upt: "i < p \<Longrightarrow> filter (\<lambda>k. k = i) [0..<p] = [i]"
proof (induction p)
  case 0
  then show ?case by simp
next
  case (Suc p)
  show ?case
  proof (cases "i = p")
    case True
    have "filter (\<lambda>k. k = p) [0..<p] = []" by (simp add: filter_empty_conv)
    with True show ?thesis by simp
  next
    case False
    with Suc have "i < p" by simp
    with Suc.IH False show ?thesis by simp
  qed
qed

lemma upt_blocks: "[0..<p * Suc m] = [0..<p * m] @ [p * m..<p * m + p]"
proof -
  have "[0..<p * m + p] = [0..<p * m] @ [p * m..<p * m + p]"
    by (rule upt_add_eq_append) simp
  then show ?thesis by (simp add: add.commute)
qed

lemma filter_mod_block:
  assumes "i < p"
  shows "filter (\<lambda>j. j mod p = i) [p * m..<p * m + p] = [p * m + i]"
proof -
  have blk: "[p * m..<p * m + p] = map (\<lambda>k. p * m + k) [0..<p]"
    by (rule nth_equalityI) simp_all
  have "filter (\<lambda>j. j mod p = i) (map (\<lambda>k. p * m + k) [0..<p]) =
      map (\<lambda>k. p * m + k) (filter (\<lambda>k. (p * m + k) mod p = i) [0..<p])"
    by (simp add: filter_map comp_def)
  also have "filter (\<lambda>k. (p * m + k) mod p = i) [0..<p] = filter (\<lambda>k. k = i) [0..<p]"
    by (rule filter_cong) simp_all
  finally show ?thesis using assms by (simp add: blk filter_eq_upt)
qed

lemma length_filter_mod:
  assumes "i < p"
  shows "length (filter (\<lambda>j. j mod p = i) [0..<p * m]) = m"
proof (induction m)
  case 0
  show ?case by simp
next
  case (Suc m)
  have "length (filter (\<lambda>j. j mod p = i) [0..<p * Suc m]) =
      length (filter (\<lambda>j. j mod p = i) [0..<p * m]) +
      length (filter (\<lambda>j. j mod p = i) [p * m..<p * m + p])"
    by (simp only: upt_blocks filter_append length_append)
  with Suc filter_mod_block [OF assms, of m] show ?case by simp
qed

lemma labelled_nth: "j < length df \<Longrightarrow> labelled df ! j = (j, df ! j)"
  by (simp add: labelled_def)

lemma length_labelled: "length (labelled df) = length df"
  by (simp add: labelled_def)

lemma complex_of_labelled:
  assumes "i < p"
  shows "partition_complexes (labelled df) p ! i =
     map (\<lambda>j. (j, df ! j)) (filter (\<lambda>j. j mod p = i) [0..<length df])"
proof -
  have "map ((!) (labelled df)) (filter (\<lambda>j. j mod p = i) [0..<length df]) =
      map (\<lambda>j. (j, df ! j)) (filter (\<lambda>j. j mod p = i) [0..<length df])"
    by (rule map_cong) (simp_all add: labelled_nth)
  with assms show ?thesis by (simp add: partition_complexes_nth length_labelled)
qed

lemma index_set_complex:
  assumes "i < p"
  shows "index_set (partition_complexes (labelled df) p ! i) =
     {j. j < length df \<and> j mod p = i}"
proof -
  have "fst ` (\<lambda>j. (j, df ! j)) ` {j. j < length df \<and> j mod p = i} =
      {j. j < length df \<and> j mod p = i}"
    by (simp add: image_image)
  moreover have "set (filter (\<lambda>j. j mod p = i) [0..<length df]) =
      {j. j < length df \<and> j mod p = i}"
    by auto
  ultimately show ?thesis
    using assms by (simp add: index_set_def complex_of_labelled)
qed

text \<open>
  C7. When the population has \<open>num_complexes * complex_size\<close> rows, the partition
  yields \<open>num_complexes\<close> complexes; the row at population index \<open>j\<close> goes to the
  complex numbered \<open>j mod num_complexes\<close>; every complex has exactly \<open>complex_size\<close>
  rows, which is the population length divided by \<open>num_complexes\<close>; the index sets of
  two different complexes are disjoint, and together the index sets are all the
  population indices.
\<close>

theorem partition_round_robin:
  assumes "length population = num_complexes * complex_size"
  shows "length (partition_complexes (labelled population) num_complexes) = num_complexes \<and>
    (\<forall>j<length population.
        (j, population ! j) \<in>
          set (partition_complexes (labelled population) num_complexes ! (j mod num_complexes))) \<and>
    (\<forall>i<num_complexes.
        length (partition_complexes (labelled population) num_complexes ! i) = complex_size \<and>
        length (partition_complexes (labelled population) num_complexes ! i) =
          length population div num_complexes) \<and>
    (\<forall>i<num_complexes. \<forall>k<num_complexes. i \<noteq> k \<longrightarrow>
        index_set (partition_complexes (labelled population) num_complexes ! i) \<inter>
        index_set (partition_complexes (labelled population) num_complexes ! k) = {}) \<and>
    (\<Union>i<num_complexes.
        index_set (partition_complexes (labelled population) num_complexes ! i)) =
      {0..<length population}"
proof (intro conjI allI impI)
  show "length (partition_complexes (labelled population) num_complexes) = num_complexes"
    by (simp add: partition_complexes_def)
next
  fix j assume j: "j < length population"
  with assms have pos: "0 < num_complexes" by (cases num_complexes) simp_all
  then have "j mod num_complexes < num_complexes" by simp
  then have "index_set (partition_complexes (labelled population) num_complexes !
      (j mod num_complexes)) = {k. k < length population \<and> k mod num_complexes = j mod num_complexes}"
    by (rule index_set_complex)
  moreover have "partition_complexes (labelled population) num_complexes ! (j mod num_complexes) =
      map (\<lambda>k. (k, population ! k))
        (filter (\<lambda>k. k mod num_complexes = j mod num_complexes) [0..<length population])"
    using pos by (simp add: complex_of_labelled)
  ultimately show "(j, population ! j) \<in>
      set (partition_complexes (labelled population) num_complexes ! (j mod num_complexes))"
    using j by simp
next
  fix i assume i: "i < num_complexes"
  then have len: "length (partition_complexes (labelled population) num_complexes ! i) =
      length (filter (\<lambda>j. j mod num_complexes = i) [0..<num_complexes * complex_size])"
    using assms by (simp add: complex_of_labelled)
  with i show "length (partition_complexes (labelled population) num_complexes ! i) = complex_size"
    by (simp add: length_filter_mod)
  with i assms show "length (partition_complexes (labelled population) num_complexes ! i) =
      length population div num_complexes"
    by simp
next
  fix i k assume "i < num_complexes" "k < num_complexes" "i \<noteq> k"
  then show "index_set (partition_complexes (labelled population) num_complexes ! i) \<inter>
      index_set (partition_complexes (labelled population) num_complexes ! k) = {}"
    by (auto simp: index_set_complex)
next
  show "(\<Union>i<num_complexes.
        index_set (partition_complexes (labelled population) num_complexes ! i)) =
      {0..<length population}"
  proof (cases "num_complexes = 0")
    case True
    with assms show ?thesis by simp
  next
    case False
    then have "\<And>j. j mod num_complexes < num_complexes" by simp
    then show ?thesis by (auto simp: index_set_complex)
  qed
qed

lemma partition_complexes_example:
  "partition_complexes (labelled [10, 11, 12, 13::nat]) 2 =
     [[(0, 10), (2, 12)], [(1, 11), (3, 13)]]"
  by code_simp

theorem partition_round_robin_witness:
  "length [10, 11, 12, 13::nat] = 2 * 2 \<and>
   length (partition_complexes (labelled [10, 11, 12, 13::nat]) 2) = 2 \<and>
   (3, 13) \<in> set (partition_complexes (labelled [10, 11, 12, 13::nat]) 2 ! (3 mod 2)) \<and>
   length (partition_complexes (labelled [10, 11, 12, 13::nat]) 2 ! 1) = 2 \<and>
   index_set (partition_complexes (labelled [10, 11, 12, 13::nat]) 2 ! 0) \<inter>
     index_set (partition_complexes (labelled [10, 11, 12, 13::nat]) 2 ! 1) = {}"
proof -
  have h: "length [10, 11, 12, 13::nat] = 2 * 2" by simp
  show ?thesis
    using h partition_round_robin [OF h]
    by (simp add: partition_complexes_example index_set_def)
qed

subsection \<open>Rank weights\<close>








subsection \<open>\<^verbatim>\<open>_cce\<close> raises before its loop\<close>

lemma cce_outcome:
  "cce complx simplx_size alpha reflection_coef contraction_coef w =
     (Inl (if complx = [] then ValueError
           else if ''sort_by'' \<in> set (concat (map (\<lambda>c. columns (snd c)) complx)) then TypeError
           else AttributeError), w)"
proof -
  have "map columns (map snd complx) = map (\<lambda>c. columns (snd c)) complx"
    by simp
  then show ?thesis
    by (simp add: cce_def concat_columns_def frame_getattr_def)
qed

lemma cce_raises:
  "\<exists>err. cce complx simplx_size alpha reflection_coef contraction_coef w = (Inl err, w)"
  by (simp add: cce_outcome)

lemma example_cce:
  "cce example_complex 2 2 1 (1 / 2) example_world = (Inl AttributeError, example_world)"
  by (simp add: cce_outcome example_complex_def)

text \<open>
  C3. For every complex, simplex size, number of iterations and pair of coefficients,
  \<^verbatim>\<open>_cce\<close> raises at line 313 or at line 318, with the world as it was: ValueError for
  a complex without frames, TypeError when a column is labelled \<^verbatim>\<open>sort_by\<close>, and
  AttributeError otherwise. The loop is not entered, so the centroid of line 332 is
  computed for no simplex.
\<close>

theorem cce_raises_before_centroid:
  "cce complx simplx_size alpha reflection_coef contraction_coef w =
     (Inl (if complx = [] then ValueError
           else if ''sort_by'' \<in> set (concat (map (\<lambda>c. columns (snd c)) complx)) then TypeError
           else AttributeError), w)"
  by (rule cce_outcome)


text \<open>
  C5. A call of \<^verbatim>\<open>_cce\<close> raises the same exception and leaves the same world whatever
  the reflection and contraction coefficients are: no reflection or contraction is
  computed, and no point of the complex is replaced.
\<close>

theorem cce_ignores_coefficients:
  "\<exists>err. \<forall>reflection_coef contraction_coef.
     cce complx simplx_size alpha reflection_coef contraction_coef w = (Inl err, w)"
proof -
  obtain err where "cce complx simplx_size alpha 1 (1 / 2) w = (Inl err, w)"
    using cce_raises by blast
  then have "\<forall>reflection_coef contraction_coef.
     cce complx simplx_size alpha reflection_coef contraction_coef w = (Inl err, w)"
    by (simp add: cce_outcome)
  then show ?thesis ..
qed

text \<open>
  C6. A call of \<^verbatim>\<open>_cce\<close> raises the same exception whatever \<open>alpha\<close> is, and the count
  of the calls of \<^verbatim>\<open>np.random.choice\<close> is as before: no simplex is drawn, not once
  and not \<open>alpha\<close> times, and no weight is computed.
\<close>

theorem cce_draws_no_simplex:
  "(\<exists>err. \<forall>iterations.
      cce complx simplx_size iterations reflection_coef contraction_coef w = (Inl err, w)) \<and>
   picks (snd (cce complx simplx_size alpha reflection_coef contraction_coef w)) = picks w"
proof -
  obtain err where "cce complx simplx_size alpha reflection_coef contraction_coef w = (Inl err, w)"
    using cce_raises by blast
  then have "\<forall>iterations.
      cce complx simplx_size iterations reflection_coef contraction_coef w = (Inl err, w)"
    by (simp add: cce_outcome)
  then show ?thesis by (auto simp: cce_outcome)
qed

subsection \<open>The driver\<close>

text \<open>The rows of the complexes that \<^verbatim>\<open>calibrate\<close> builds are those of the partition.\<close>

lemma complex_of_partition:
  assumes "i < num_complexes"
  shows "map (\<lambda>c. rows (snd c)) (complex_of population num_complexes i) =
     map (\<lambda>c. partition_complexes (labelled (rows (snd c))) num_complexes ! i) population"
  using assms
  by (simp add: complex_of_def partition_complexes_def length_labelled split_def comp_def)

lemma sim_log_run_Calibration: "sim_log (run Calibration n w) = sim_log w @ [Calibration_run n]"
  by (simp add: run_def)

lemma picks_run: "picks (run mode n w) = picks w"
  by (cases mode) (simp_all add: run_def)

lemma evolve_complexes_raises:
  "\<exists>err. evolve_complexes population num_complexes simplex_size alpha (i # rest) w = Inl err"
  by (simp add: cce_outcome)

lemma evolve_complexes_returns:
  assumes "evolve_complexes population num_complexes simplex_size alpha indices w = Inr w'"
  shows "indices = [] \<and> w' = w"
proof (cases indices)
  case Nil
  with assms show ?thesis by simp
next
  case (Cons i rest)
  with assms evolve_complexes_raises [of population num_complexes simplex_size alpha i rest w]
  show ?thesis by auto
qed

lemma calibrate_frame:
  assumes "calibrate e num_complexes complex_size simplex_size alpha w = Inr (result, w')"
  shows "result = None \<and> num_complexes = 0 \<and>
    w' = run Calibration (num_complexes * complex_size) w"
proof -
  let ?w1 = "run Calibration (num_complexes * complex_size) w"
  from assms obtain population where res: "result = None"
    and ev: "evolve_complexes population num_complexes simplex_size alpha
        [0..<num_complexes] ?w1 = Inr w'"
    by (auto simp: calibrate_def Let_def split: sum.splits)
  from evolve_complexes_returns [OF ev] have "[0..<num_complexes] = []" "w' = ?w1"
    by simp_all
  with res show ?thesis by simp
qed

text \<open>
  C1. What \<^verbatim>\<open>calibrate\<close> does, where the specification has rounds, a convergence
  test and a returned best point: a call that does not raise returns \<^verbatim>\<open>None\<close>; it has
  drawn exactly \<open>num_complexes\<close> simplexes (none: it returns only when there is no complex
  to evolve, because \<^verbatim>\<open>_cce\<close> raises on every complex), with no shuffle and no second
  round, after the one calibration run of \<open>num_complexes * complex_size\<close> points.
\<close>

theorem calibrate_single_pass:
  assumes "calibrate e num_complexes complex_size simplex_size alpha w = Inr (result, w')"
  shows "result = None \<and> picks w' = picks w + num_complexes \<and>
    (\<exists>es. sim_log w' = sim_log w @ Calibration_run (num_complexes * complex_size) # es) \<and>
    num_complexes = 0"
  using calibrate_frame [OF assms] by (simp add: picks_run sim_log_run_Calibration)

lemma example_calibrate:
  "calibrate (example_env 0) 0 2 2 1 example_world =
     Inr (None, \<lparr>evaluation_parameters = [], sim_log = [Calibration_run 0], picks = 0\<rparr>)"
  by (simp add: calibrate_def Let_def run_def read_performance_output_def example_env_def
      example_world_def)

lemma example_calibrate_raises:
  "calibrate (example_env 0) 2 2 2 1 example_world = Inl AttributeError"
  by code_simp

theorem calibrate_single_pass_witness:
  "\<exists>w'. calibrate (example_env 0) 0 2 2 1 example_world = Inr (None, w') \<and>
     picks w' = picks example_world + 0 \<and>
     (\<exists>es. sim_log w' = sim_log example_world @ Calibration_run (0 * 2) # es)"
  using calibrate_single_pass [OF example_calibrate] example_calibrate
  by blast

subsection \<open>The partition without a size check\<close>










subsection \<open>Editing a line\<close>

text \<open>
  C9. \<^verbatim>\<open>_edit_line(path, line_number, text)\<close>, for every \<open>path\<close>: when the file at
  \<open>path\<close> exists and has the line, the call succeeds and the file at
  \<^verbatim>\<open>self.input_path\<close> becomes the lines of the file at \<open>path\<close> with the line replaced,
  whatever \<open>path\<close> is; otherwise the call raises and no file changes. In every case
  only the file at \<^verbatim>\<open>self.input_path\<close> can change: when \<open>path\<close> is another path, the
  file at \<open>path\<close> is as before.
\<close>

theorem edit_line_writes_input_path:
  "(path \<noteq> input_path self \<longrightarrow>
      snd (edit_line self fs path line_number new_text) path = fs path) \<and>
   (\<forall>other. other \<noteq> input_path self \<longrightarrow>
      snd (edit_line self fs path line_number new_text) other = fs other) \<and>
   (\<forall>content i. fs path = Some content \<and>
        py_index line_number (length (readlines content)) = Some i \<longrightarrow>
      edit_line self fs path line_number new_text =
        (Inr (), fs(input_path self \<mapsto>
           concat ((readlines content)[i := new_text @ [CHR 0x0A]])))) \<and>
   (\<not> (\<exists>content i. fs path = Some content \<and>
        py_index line_number (length (readlines content)) = Some i) \<longrightarrow>
      (\<exists>err. edit_line self fs path line_number new_text = (Inl err, fs)))"
  by (auto simp: edit_line_def Let_def split: option.splits)

lemma example_other_lines: "readlines ''x\<newline>y\<newline>z'' = [''x\<newline>'', ''y\<newline>'', ''z'']"
  by code_simp

theorem edit_line_writes_input_path_witness:
  "example_fs [''m'', ''Other.txt''] = Some ''x\<newline>y\<newline>z'' \<and>
   py_index (- 1) (length (readlines ''x\<newline>y\<newline>z'')) = Some 2 \<and>
   [''m'', ''Other.txt''] \<noteq> input_path (init [''m'']) \<and>
   fst (edit_line (init [''m'']) example_fs [''m'', ''Other.txt''] (- 1) ''w'') = Inr () \<and>
   snd (edit_line (init [''m'']) example_fs [''m'', ''Other.txt''] (- 1) ''w'')
      [''m'', ''Input.txt''] = Some ''x\<newline>y\<newline>w\<newline>'' \<and>
   snd (edit_line (init [''m'']) example_fs [''m'', ''Other.txt''] (- 1) ''w'')
      [''m'', ''Other.txt''] = Some ''x\<newline>y\<newline>z''"
proof -
  have f: "example_fs [''m'', ''Other.txt''] = Some ''x\<newline>y\<newline>z''"
    by (simp add: example_fs_def)
  have i: "py_index (- 1) (length (readlines ''x\<newline>y\<newline>z'')) = Some 2"
    unfolding example_other_lines by code_simp
  have ip: "input_path (init [''m'']) = [''m'', ''Input.txt'']" by (simp add: init_def)
  note t = edit_line_writes_input_path [where fs = example_fs
      and path = "[''m'', ''Other.txt'']" and self = "init [''m'']"
      and line_number = "- 1" and new_text = "''w''"]
  from t f i
  have e: "edit_line (init [''m'']) example_fs [''m'', ''Other.txt''] (- 1) ''w'' =
      (Inr (), example_fs(input_path (init [''m'']) \<mapsto>
         concat ((readlines ''x\<newline>y\<newline>z'')[2 := ''w'' @ [CHR 0x0A]])))"
    by blast
  show ?thesis
    using f i unfolding e example_other_lines ip by simp
qed

subsection \<open>The calibrated variable\<close>

text \<open>
  The key \<^verbatim>\<open>"unsaturated"\<close> that \<^verbatim>\<open>module_names\<close> looks up is not a key of the
  dictionary of \<^verbatim>\<open>module_config\<close>, so the getter raises in every state: whatever comes
  first of a failing read of the input file, a failing selection for \<^verbatim>\<open>"soil"\<close>, and
  the KeyError.
\<close>

lemma module_names_raises: "\<exists>err. module_names to_int select self fs = Inl err"
proof (cases "module_config to_int self fs")
  case (Inl err)
  then show ?thesis by (simp add: module_names_def)
next
  case (Inr modules)
  then have "modules ''unsaturated'' = None"
    by (auto simp: module_config_def split: sum.splits list.splits option.splits)
  then have "\<exists>err. module_names_of select modules components = Inl err"
    by (simp add: components_def split: option.splits sum.splits)
  with Inr show ?thesis by (simp add: module_names_def)
qed

lemma py_index_7: "py_index 7 n = (if 8 \<le> n then Some 7 else None)"
  by (simp add: py_index_def)

lemma calibrated_variable_cases:
  "calibrated_variable self fs =
     (case fs (input_path self) of
        None \<Rightarrow> Inl FileNotFoundError
      | Some content \<Rightarrow> if 8 \<le> length (readlines content) then Inr None else Inl IndexError)"
  by (simp add: calibrated_variable_def read_line_def py_index_7 split: option.splits)

lemma components_no_fit:
  "map_of (map (\<lambda>component. (component, f component)) components) ''fit'' = None"
  by (simp add: components_def)

text \<open>
  C10 (as amended). When line 7 of the input file can be read (the file exists and has
  at least 8 lines) the getter of \<^verbatim>\<open>calibrated_variable\<close> returns \<^verbatim>\<open>None\<close>, and
  \<^verbatim>\<open>output_calibration_paths\<close> returns paths without a \<open>fit\<close> entry; in every other
  state the getter raises. It never returns the line it reads, and whenever
  \<^verbatim>\<open>output_calibration_paths\<close> returns, there is no \<open>fit\<close> entry.
\<close>

theorem calibrated_variable_never_returns_line:
  "((\<exists>content. fs (input_path self) = Some content \<and> 8 \<le> length (readlines content)) \<longrightarrow>
      calibrated_variable self fs = Inr None \<and>
      (\<exists>paths. output_calibration_paths self (Inr module_name) fs = Inr paths \<and>
         paths ''fit'' = None)) \<and>
   (\<not> (\<exists>content. fs (input_path self) = Some content \<and> 8 \<le> length (readlines content)) \<longrightarrow>
      (\<exists>err. calibrated_variable self fs = Inl err)) \<and>
   (\<forall>line. calibrated_variable self fs \<noteq> Inr (Some line)) \<and>
   (\<forall>paths. output_calibration_paths self names fs = Inr paths \<longrightarrow> paths ''fit'' = None)"
proof (intro conjI allI impI)
  assume "\<exists>content. fs (input_path self) = Some content \<and> 8 \<le> length (readlines content)"
  then show "calibrated_variable self fs = Inr None"
    by (auto simp: calibrated_variable_cases)
  then show "\<exists>paths. output_calibration_paths self (Inr module_name) fs = Inr paths \<and>
         paths ''fit'' = None"
    by (simp add: output_calibration_paths_def Let_def components_no_fit)
next
  assume "\<not> (\<exists>content. fs (input_path self) = Some content \<and> 8 \<le> length (readlines content))"
  then show "\<exists>err. calibrated_variable self fs = Inl err"
    by (auto simp: calibrated_variable_cases split: option.splits)
next
  fix line show "calibrated_variable self fs \<noteq> Inr (Some line)"
    by (simp add: calibrated_variable_cases split: option.splits)
next
  fix paths assume "output_calibration_paths self names fs = Inr paths"
  then show "paths ''fit'' = None"
    by (auto simp: output_calibration_paths_def Let_def components_no_fit
        calibrated_variable_cases split: sum.splits option.splits if_splits)
qed

text \<open>On an input file of two lines the getter raises IndexError.\<close>

theorem calibrated_variable_counterexample:
  "calibrated_variable (init [''m'']) example_fs = Inl IndexError"
  by code_simp

lemma example_input_g_line:
  "read_line example_input_g (input_path (init [''m''])) 7 = Inr ''g''"
  by code_simp

lemma example_input_g_content:
  "example_input_g (input_path (init [''m''])) =
     Some ''0\<newline>1\<newline>2\<newline>3\<newline>4\<newline>5\<newline>6\<newline>g\<newline>8\<newline>''"
  by (simp add: example_input_g_def init_def)

lemma example_input_g_length:
  "length (readlines ''0\<newline>1\<newline>2\<newline>3\<newline>4\<newline>5\<newline>6\<newline>g\<newline>8\<newline>'') = 9"
  by code_simp

theorem calibrated_variable_never_returns_line_witness:
  "read_line example_input_g (input_path (init [''m''])) 7 = Inr ''g'' \<and>
   calibrated_variable (init [''m'']) example_input_g = Inr None \<and>
   (\<exists>paths. output_calibration_paths (init [''m'']) (Inr (\<lambda>component. component))
       example_input_g = Inr paths \<and> paths ''fit'' = None)"
proof -
  have "\<exists>content. example_input_g (input_path (init [''m''])) = Some content \<and>
      8 \<le> length (readlines content)"
    by (simp add: example_input_g_content example_input_g_length)
  with calibrated_variable_never_returns_line
    [of example_input_g "init [''m'']" "\<lambda>component. component"]
  show ?thesis using example_input_g_line by blast
qed

end
